theory Spec2Isabelle
  imports Complex_Main
begin

section \<open>The SIR model of \<^verbatim>\<open>SIR_model_covid19.py\<close>\<close>

text \<open>
  The class \<^verbatim>\<open>Doenca\<close> holds the coefficients of a compartmental epidemic model and
  six series (\<^verbatim>\<open>I\<close>, \<^verbatim>\<open>C\<close>, \<^verbatim>\<open>D\<close>, \<^verbatim>\<open>S\<close>, \<^verbatim>\<open>time\<close>, \<^verbatim>\<open>leitos\<close>) that \<^verbatim>\<open>run\<close>
  extends by one entry per explicit Euler step.

  Numbers. Python computes with binary64 floats. The model below computes with
  \<^typ>\<open>real\<close>, that is, in exact arithmetic: every \<^verbatim>\<open>+\<close>, \<^verbatim>\<open>-\<close>, \<^verbatim>\<open>*\<close> and \<^verbatim>\<open>/\<close> of the
  source is the exact operation, and the literal \<^verbatim>\<open>0.01\<close> is the number \<open>1/100\<close>.
  Rounding is modelled apart, for the two coefficient lines of \<^verbatim>\<open>__init__\<close> only
  (section ``Binary64 rounding'').
\<close>

subsection \<open>Data\<close>

datatype py_error = ZeroDivisionError | IndexError

record doenca =
  simulationTime :: real
  populacao :: real
  beta :: real
  gama :: real
  tDeath :: real
  tCuradas :: real
  I :: "real list"
  C :: "real list"
  D :: "real list"
  S :: "real list"
  time :: "real list"
  leitos :: "real list"

subsection \<open>\<^verbatim>\<open>Doenca.__init__\<close>\<close>

text \<open>
  The attribute \<^verbatim>\<open>tDeath\<close> is assigned twice; the second assignment
  (\<^verbatim>\<open>tDeath * gama\<close>) is the one that stays. \<^verbatim>\<open>tCuradas\<close> reads the parameter
  \<^verbatim>\<open>tDeath\<close>, not the attribute. The first division, \<^verbatim>\<open>infectado / populacao\<close>, raises
  \<^verbatim>\<open>ZeroDivisionError\<close> when \<^verbatim>\<open>populacao\<close> is zero; nothing else in the constructor
  can raise, and there is no check of any parameter.
\<close>

definition init ::
  "real \<Rightarrow> real \<Rightarrow> real \<Rightarrow> real \<Rightarrow> real \<Rightarrow> real \<Rightarrow> real \<Rightarrow> real \<Rightarrow> real \<Rightarrow> py_error + doenca"
where
  "init populacao' beta' gama' tDeath' infectado curado mortos simulationTime' leitos' =
     (if populacao' = 0 then Inl ZeroDivisionError
      else Inr \<lparr> simulationTime = simulationTime',
                 populacao = populacao',
                 beta = beta',
                 gama = gama',
                 tDeath = tDeath' * gama',
                 tCuradas = gama' * (1 - tDeath'),
                 I = [infectado / populacao'],
                 C = [curado / populacao'],
                 D = [mortos / populacao'],
                 S = [(populacao' - infectado) / populacao'],
                 time = [0],
                 leitos = [leitos'] \<rparr>)"

subsection \<open>\<^verbatim>\<open>Doenca.run\<close>\<close>

definition dt :: real where
  "dt = 1 / 100"

text \<open>Python's \<^verbatim>\<open>int\<close> of a float truncates towards zero.\<close>

definition py_int :: "real \<Rightarrow> int" where
  "py_int x = (if 0 \<le> x then \<lfloor>x\<rfloor> else \<lceil>x\<rceil>)"

text \<open>
  One pass of the loop body. The five new values are computed from the last entries of
  the series (\<^verbatim>\<open>self.I[-1]\<close> and so on, an \<^verbatim>\<open>IndexError\<close> on an empty list) and only
  then appended; \<^verbatim>\<open>leitos\<close> receives the literal 744.
\<close>

definition step :: "doenca \<Rightarrow> py_error + doenca" where
  "step self =
     (if I self = [] \<or> S self = [] \<or> C self = [] \<or> D self = [] \<or> time self = []
      then Inl IndexError
      else
        let I' = last (I self)
                   + (beta self * last (I self) * last (S self) - gama self * last (I self)) * dt;
            C' = last (C self) + (tCuradas self * last (I self)) * dt;
            D' = last (D self) + (tDeath self * last (I self)) * dt;
            S' = last (S self) - (beta self * last (I self) * last (S self)) * dt;
            time' = last (time self) + dt
        in Inr (self \<lparr> I := I self @ [I'],
                        C := C self @ [C'],
                        D := D self @ [D'],
                        S := S self @ [S'],
                        time := time self @ [time'],
                        leitos := leitos self @ [744] \<rparr>))"

text \<open>\<^verbatim>\<open>for t in range(n)\<close>: the body runs \<open>n\<close> times, and an exception ends the loop.\<close>

fun loop :: "nat \<Rightarrow> doenca \<Rightarrow> py_error + doenca" where
  "loop 0 self = Inr self"
| "loop (Suc n) self = (case step self of Inl e \<Rightarrow> Inl e | Inr self' \<Rightarrow> loop n self')"

text \<open>The number of passes: \<^verbatim>\<open>range(int(self.simulationTime / dt))\<close>, empty when the
  argument is not positive.\<close>

definition steps :: "doenca \<Rightarrow> nat" where
  "steps self = nat (py_int (simulationTime self / dt))"

text \<open>The state when the loop ends: the series still hold fractions of the population.\<close>

definition integrate :: "doenca \<Rightarrow> py_error + doenca" where
  "integrate self = loop (steps self) self"

text \<open>The four list comprehensions after the loop (``Colocando em numero absoluto'').\<close>

definition to_absolute :: "doenca \<Rightarrow> doenca" where
  "to_absolute self =
     self \<lparr> I := map (\<lambda>i. i * populacao self) (I self),
            C := map (\<lambda>c. c * populacao self) (C self),
            D := map (\<lambda>d. d * populacao self) (D self),
            S := map (\<lambda>s. s * populacao self) (S self) \<rparr>"

definition run :: "doenca \<Rightarrow> py_error + doenca" where
  "run self = (case integrate self of Inl e \<Rightarrow> Inl e | Inr self' \<Rightarrow> Inr (to_absolute self'))"

text \<open>The script at the end of the module: \<^verbatim>\<open>corona = Doenca(...)\<close>, then \<^verbatim>\<open>corona.run()\<close>.\<close>

definition simulate ::
  "real \<Rightarrow> real \<Rightarrow> real \<Rightarrow> real \<Rightarrow> real \<Rightarrow> real \<Rightarrow> real \<Rightarrow> real \<Rightarrow> real \<Rightarrow> py_error + doenca"
where
  "simulate populacao' beta' gama' tDeath' infectado curado mortos simulationTime' leitos' =
     (case init populacao' beta' gama' tDeath' infectado curado mortos simulationTime' leitos' of
        Inl e \<Rightarrow> Inl e
      | Inr self \<Rightarrow> run self)"

subsection \<open>Binary64 rounding\<close>

text \<open>
  A Python float is an IEEE 754 binary64 number, and each arithmetic operation returns
  the exact result rounded to the nearest binary64 number, ties to the even significand.
  \<open>round64\<close> is that rounding: 53 significant bits for a normal number, a fixed unit
  \<open>2 powi (- 1074)\<close> below \<open>2 powi (- 1022)\<close>. Overflow to infinity is left out: the
  values it is used on here are near \<open>1/10\<close>.
\<close>

fun exponent_of :: "nat \<Rightarrow> real \<Rightarrow> int \<Rightarrow> int" where
  "exponent_of 0 m e = e"
| "exponent_of (Suc fuel) m e =
     (if 2 \<le> m then exponent_of fuel (m / 2) (e + 1)
      else if m < 1 then exponent_of fuel (m * 2) (e - 1)
      else e)"

definition round_half_even :: "real \<Rightarrow> int" where
  "round_half_even x =
     (let f = \<lfloor>x\<rfloor>; r = x - of_int f
      in if r < 1 / 2 then f else if 1 / 2 < r then f + 1 else if even f then f else f + 1)"

definition round64 :: "real \<Rightarrow> real" where
  "round64 x =
     (if x = 0 then 0
      else let e = max (exponent_of 1100 \<bar>x\<bar> 0) (- 1022);
               ulp = 2 powi (e - 52)
           in of_int (round_half_even (x / ulp)) * ulp)"

text \<open>
  The two coefficient lines of \<^verbatim>\<open>__init__\<close> on floats:
  \<^verbatim>\<open>self.tDeath = tDeath * gama\<close> and \<^verbatim>\<open>self.tCuradas = gama * (1 - tDeath)\<close>.
\<close>

definition tDeath64 :: "real \<Rightarrow> real \<Rightarrow> real" where
  "tDeath64 gama' tDeath' = round64 (tDeath' * gama')"

definition tCuradas64 :: "real \<Rightarrow> real \<Rightarrow> real" where
  "tCuradas64 gama' tDeath' = round64 (gama' * round64 (1 - tDeath'))"

subsection \<open>What a run leaves in the series\<close>

text \<open>All six series have \<open>n\<close> entries.\<close>

definition series_length :: "doenca \<Rightarrow> nat \<Rightarrow> bool" where
  "series_length self n \<longleftrightarrow>
     length (I self) = n \<and> length (C self) = n \<and> length (D self) = n \<and>
     length (S self) = n \<and> length (time self) = n \<and> length (leitos self) = n"

text \<open>The scalar attributes of \<open>b\<close> are those of \<open>a\<close>.\<close>

definition same_coefficients :: "doenca \<Rightarrow> doenca \<Rightarrow> bool" where
  "same_coefficients a b \<longleftrightarrow>
     simulationTime b = simulationTime a \<and> populacao b = populacao a \<and> beta b = beta a \<and>
     gama b = gama a \<and> tDeath b = tDeath a \<and> tCuradas b = tCuradas a"

text \<open>Entry \<open>k + 1\<close> of each series is the Euler update of the entries at \<open>k\<close>.\<close>

definition euler_at :: "doenca \<Rightarrow> nat \<Rightarrow> bool" where
  "euler_at self k \<longleftrightarrow>
     I self ! Suc k
       = I self ! k + (beta self * I self ! k * S self ! k - gama self * I self ! k) * dt \<and>
     C self ! Suc k = C self ! k + (tCuradas self * I self ! k) * dt \<and>
     D self ! Suc k = D self ! k + (tDeath self * I self ! k) * dt \<and>
     S self ! Suc k = S self ! k - (beta self * I self ! k * S self ! k) * dt \<and>
     time self ! Suc k = time self ! k + dt"

text \<open>The first \<open>n\<close> entries of every series of \<open>a\<close> are still there in \<open>b\<close>.\<close>

definition keeps :: "doenca \<Rightarrow> nat \<Rightarrow> doenca \<Rightarrow> bool" where
  "keeps a n b \<longleftrightarrow>
     (\<forall>k<n. I b ! k = I a ! k \<and> C b ! k = C a ! k \<and> D b ! k = D a ! k \<and>
            S b ! k = S a ! k \<and> time b ! k = time a ! k \<and> leitos b ! k = leitos a ! k)"

text \<open>The state after \<open>n\<close> passes of the loop on a freshly constructed object.\<close>

definition trajectory :: "doenca \<Rightarrow> nat \<Rightarrow> bool" where
  "trajectory self n \<longleftrightarrow>
     series_length self (Suc n) \<and> (\<forall>k<n. euler_at self k \<and> leitos self ! Suc k = 744)"

section \<open>The loop, one pass at a time\<close>

lemma step_series:
  assumes "series_length self (Suc n)"
  shows "\<exists>self'. step self = Inr self' \<and> series_length self' (Suc (Suc n)) \<and>
           same_coefficients self self' \<and> keeps self (Suc n) self' \<and> euler_at self' n \<and>
           leitos self' ! Suc n = 744"
proof -
  from assms have ne: "I self \<noteq> []" "S self \<noteq> []" "C self \<noteq> []" "D self \<noteq> []" "time self \<noteq> []"
    and len: "length (I self) = Suc n" "length (C self) = Suc n" "length (D self) = Suc n"
      "length (S self) = Suc n" "length (time self) = Suc n" "length (leitos self) = Suc n"
    by (auto simp: series_length_def)
  have lasts: "last (I self) = I self ! n" "last (C self) = C self ! n" "last (D self) = D self ! n"
    "last (S self) = S self ! n" "last (time self) = time self ! n"
    using ne len by (simp_all add: last_conv_nth)
  show ?thesis
    using ne len lasts
    by (simp add: step_def Let_def series_length_def same_coefficients_def keeps_def euler_at_def
        nth_append)
qed


lemma euler_at_keeps:
  assumes "keeps a m b" "same_coefficients a b" "Suc k < m"
  shows "euler_at b k = euler_at a k"
proof -
  have "k < m" using assms(3) by simp
  with assms show ?thesis
    by (simp add: keeps_def same_coefficients_def euler_at_def)
qed

lemma keeps_trans:
  assumes "keeps a m b" "keeps b m' c" "m \<le> m'"
  shows "keeps a m c"
  using assms unfolding keeps_def by (metis order_less_le_trans)

lemma same_coefficients_trans:
  "same_coefficients a b \<Longrightarrow> same_coefficients b c \<Longrightarrow> same_coefficients a c"
  by (simp add: same_coefficients_def)

lemma step_trajectory:
  assumes "trajectory self n"
  shows "\<exists>self'. step self = Inr self' \<and> trajectory self' (Suc n) \<and>
           same_coefficients self self' \<and> keeps self (Suc n) self'"
proof -
  from assms have sl: "series_length self (Suc n)"
    and old: "\<And>k. k < n \<Longrightarrow> euler_at self k \<and> leitos self ! Suc k = 744"
    by (simp_all add: trajectory_def)
  from step_series [OF sl] obtain self' where s: "step self = Inr self'"
    and sl': "series_length self' (Suc (Suc n))" and sc: "same_coefficients self self'"
    and kp: "keeps self (Suc n) self'" and eu: "euler_at self' n"
    and lt: "leitos self' ! Suc n = 744"
    by blast
  have "euler_at self' k \<and> leitos self' ! Suc k = 744" if "k < Suc n" for k
  proof (cases "k = n")
    case True
    then show ?thesis using eu lt by simp
  next
    case False
    with that have kn: "k < n" by simp
    then have "euler_at self' k = euler_at self k"
      using euler_at_keeps [OF kp sc, of k] by simp
    moreover have "leitos self' ! Suc k = leitos self ! Suc k"
      using kp kn by (simp add: keeps_def)
    ultimately show ?thesis using old [OF kn] by simp
  qed
  with sl' have "trajectory self' (Suc n)"
    by (simp add: trajectory_def)
  with s sc kp show ?thesis by blast
qed

lemma loop_trajectory:
  "trajectory self n \<Longrightarrow>
     \<exists>self'. loop m self = Inr self' \<and> trajectory self' (n + m) \<and>
        same_coefficients self self' \<and> keeps self (Suc n) self'"
proof (induction m arbitrary: self n)
  case 0
  then show ?case by (simp add: same_coefficients_def keeps_def)
next
  case (Suc m)
  from step_trajectory [OF Suc.prems] obtain s1 where s: "step self = Inr s1"
    and t1: "trajectory s1 (Suc n)" and sc1: "same_coefficients self s1"
    and kp1: "keeps self (Suc n) s1"
    by blast
  from Suc.IH [OF t1] obtain s2 where l: "loop m s1 = Inr s2"
    and t2: "trajectory s2 (Suc n + m)" and sc2: "same_coefficients s1 s2"
    and kp2: "keeps s1 (Suc (Suc n)) s2"
    by blast
  have "loop (Suc m) self = Inr s2" using s l by simp
  moreover have "trajectory s2 (n + Suc m)" using t2 by simp
  moreover have "same_coefficients self s2" by (rule same_coefficients_trans [OF sc1 sc2])
  moreover have "keeps self (Suc n) s2" by (rule keeps_trans [OF kp1 kp2]) simp
  ultimately show ?case by blast
qed

lemma init_trajectory:
  assumes "init p b g td i c m T l = Inr self"
  shows "trajectory self 0"
  using assms by (auto simp: init_def trajectory_def series_length_def split: if_splits)


lemma init_fields:
  assumes "init p b g td i c m T l = Inr self"
  shows "p \<noteq> 0" "simulationTime self = T" "populacao self = p" "beta self = b" "gama self = g"
    "tDeath self = td * g" "tCuradas self = g * (1 - td)"
    "I self = [i / p]" "C self = [c / p]" "D self = [m / p]" "S self = [(p - i) / p]"
    "time self = [0]" "leitos self = [l]"
  using assms by (auto simp: init_def split: if_splits)

lemma integrate_init:
  assumes "init p b g td i c m T l = Inr s0"
  shows "\<exists>s. integrate s0 = Inr s \<and> run s0 = Inr (to_absolute s) \<and>
           series_length s (Suc (steps s0)) \<and>
           (\<forall>k<steps s0. euler_at s k \<and> leitos s ! Suc k = 744) \<and>
           populacao s = p \<and> beta s = b \<and> gama s = g \<and> tDeath s = td * g \<and>
           tCuradas s = g * (1 - td) \<and>
           I s ! 0 = i / p \<and> C s ! 0 = c / p \<and> D s ! 0 = m / p \<and> S s ! 0 = (p - i) / p \<and>
           time s ! 0 = 0 \<and> leitos s ! 0 = l"
proof -
  note f = init_fields [OF assms]
  from loop_trajectory [OF init_trajectory [OF assms], of "steps s0"]
  obtain s where l: "loop (steps s0) s0 = Inr s" and t: "trajectory s (steps s0)"
    and sc: "same_coefficients s0 s" and kp: "keeps s0 (Suc 0) s"
    by auto
  have "integrate s0 = Inr s" using l by (simp add: integrate_def)
  moreover from this have "run s0 = Inr (to_absolute s)" by (simp add: run_def)
  moreover have "series_length s (Suc (steps s0))"
    "\<forall>k<steps s0. euler_at s k \<and> leitos s ! Suc k = 744"
    using t by (simp_all add: trajectory_def)
  moreover have "populacao s = p" "beta s = b" "gama s = g" "tDeath s = td * g"
    "tCuradas s = g * (1 - td)"
    using sc f by (simp_all add: same_coefficients_def)
  moreover have "I s ! 0 = i / p" "C s ! 0 = c / p" "D s ! 0 = m / p" "S s ! 0 = (p - i) / p"
    "time s ! 0 = 0" "leitos s ! 0 = l"
    using kp f by (simp_all add: keeps_def)
  ultimately show ?thesis by blast
qed

lemma steps_init:
  assumes "init p b g td i c m T l = Inr s0"
  shows "steps s0 = nat (py_int (T / dt))"
  using init_fields(2) [OF assms] by (simp add: steps_def)




section \<open>The claims\<close>

text \<open>
  In what follows \<open>s0\<close> is the object that the constructor returns, \<open>integrate s0\<close> the
  state at the end of the loop (fractions of the population) and \<open>run s0\<close> the state that
  \<^verbatim>\<open>run\<close> leaves (absolute numbers). Each theorem also says that the loop returns.
\<close>

text \<open>
  C3. Every pass of the loop computes entry \<open>k + 1\<close> of \<^verbatim>\<open>I\<close>, \<^verbatim>\<open>C\<close>, \<^verbatim>\<open>D\<close>, \<^verbatim>\<open>S\<close> and
  \<^verbatim>\<open>time\<close> from the entries at \<open>k\<close> alone: the right-hand sides read \<open>I ! k\<close> and
  \<open>S ! k\<close>, never an entry at \<open>k + 1\<close>. The cure rate is \<open>g * (1 - td)\<close> and the
  mortality rate \<open>td * g\<close>.
\<close>

theorem euler_step_reads_previous_entries:
  assumes "init p b g td i c m T l = Inr s0"
  shows "\<exists>s. integrate s0 = Inr s \<and> series_length s (Suc (steps s0)) \<and>
    (\<forall>k<steps s0.
       I s ! Suc k = I s ! k + (b * I s ! k * S s ! k - g * I s ! k) * dt \<and>
       C s ! Suc k = C s ! k + (g * (1 - td) * I s ! k) * dt \<and>
       D s ! Suc k = D s ! k + (td * g * I s ! k) * dt \<and>
       S s ! Suc k = S s ! k - (b * I s ! k * S s ! k) * dt \<and>
       time s ! Suc k = time s ! k + dt)"
proof -
  from integrate_init [OF assms] obtain s where s: "integrate s0 = Inr s"
    and len: "series_length s (Suc (steps s0))"
    and eu: "\<forall>k<steps s0. euler_at s k \<and> leitos s ! Suc k = 744"
    and co: "beta s = b" "gama s = g" "tDeath s = td * g" "tCuradas s = g * (1 - td)"
    by blast
  have "\<forall>k<steps s0.
       I s ! Suc k = I s ! k + (b * I s ! k * S s ! k - g * I s ! k) * dt \<and>
       C s ! Suc k = C s ! k + (g * (1 - td) * I s ! k) * dt \<and>
       D s ! Suc k = D s ! k + (td * g * I s ! k) * dt \<and>
       S s ! Suc k = S s ! k - (b * I s ! k * S s ! k) * dt \<and>
       time s ! Suc k = time s ! k + dt"
    using eu co by (simp add: euler_at_def)
  with s len show ?thesis by blast
qed

text \<open>Two passes from one infected person among a hundred.\<close>

theorem euler_step_reads_previous_entries_witness:
  "\<exists>s0 s. init 100 (3/10) (1/4) (1/25) 1 0 0 (2/100) 0 = Inr s0 \<and> integrate s0 = Inr s \<and>
     length (I s) = 3 \<and>
     I s ! 1 = I s ! 0 + (3/10 * I s ! 0 * S s ! 0 - 1/4 * I s ! 0) * dt \<and>
     S s ! 2 = S s ! 1 - (3/10 * I s ! 1 * S s ! 1) * dt"
proof -
  obtain s0 where i: "init 100 (3/10) (1/4) (1/25) 1 0 0 (2/100) 0 = Inr s0"
    by (simp add: init_def)
  have n: "steps s0 = 2"
    by (simp add: steps_init [OF i] dt_def py_int_def)
  from euler_step_reads_previous_entries [OF i] n obtain s where s: "integrate s0 = Inr s"
    and len: "series_length s 3"
    and eu: "\<forall>k<2. 
       I s ! Suc k = I s ! k + (3/10 * I s ! k * S s ! k - 1/4 * I s ! k) * dt \<and>
       C s ! Suc k = C s ! k + (1/4 * (1 - 1/25) * I s ! k) * dt \<and>
       D s ! Suc k = D s ! k + (1/25 * (1/4) * I s ! k) * dt \<and>
       S s ! Suc k = S s ! k - (3/10 * I s ! k * S s ! k) * dt \<and>
       time s ! Suc k = time s ! k + dt"
    by (auto simp: numeral_2_eq_2 numeral_3_eq_3)
  from eu have "I s ! Suc 0 = I s ! 0 + (3/10 * I s ! 0 * S s ! 0 - 1/4 * I s ! 0) * dt"
    by simp
  moreover from eu have "S s ! Suc (Suc 0) = S s ! Suc 0 - (3/10 * I s ! Suc 0 * S s ! Suc 0) * dt"
    by simp
  moreover have "length (I s) = 3" using len by (simp add: series_length_def)
  ultimately show ?thesis using i s by (auto simp: numeral_2_eq_2)
qed

lemma euler_at_sum:
  assumes "euler_at s k" "tDeath s + tCuradas s = gama s"
  shows "S s ! Suc k + I s ! Suc k + C s ! Suc k + D s ! Suc k
           = S s ! k + I s ! k + C s ! k + D s ! k"
proof -
  have "gama s * I s ! k * dt = tDeath s * I s ! k * dt + tCuradas s * I s ! k * dt"
    unfolding assms(2) [symmetric] by (simp add: algebra_simps)
  then show ?thesis using assms(1) by (simp add: euler_at_def algebra_simps)
qed

text \<open>
  C10. In exact arithmetic one pass of the loop leaves \<open>S + I + C + D\<close> as it was, whatever
  the real numbers \<open>b\<close>, \<open>g\<close> and \<open>td\<close> are; so at every step the sum is the sum of the
  initial state, which is \<open>1 + (c + m) / p\<close>: it differs from 1 by what the constructor
  put there, and by nothing else.
\<close>

theorem step_conserves_sum:
  assumes "init p b g td i c m T l = Inr s0"
  shows "\<exists>s. integrate s0 = Inr s \<and>
    (\<forall>k<steps s0. S s ! Suc k + I s ! Suc k + C s ! Suc k + D s ! Suc k
                     = S s ! k + I s ! k + C s ! k + D s ! k) \<and>
    (\<forall>k\<le>steps s0. S s ! k + I s ! k + C s ! k + D s ! k
                     = S s ! 0 + I s ! 0 + C s ! 0 + D s ! 0) \<and>
    S s ! 0 + I s ! 0 + C s ! 0 + D s ! 0 = 1 + (c + m) / p"
proof -
  from integrate_init [OF assms] obtain s where s: "integrate s0 = Inr s"
    and eu: "\<forall>k<steps s0. euler_at s k \<and> leitos s ! Suc k = 744"
    and co: "gama s = g" "tDeath s = td * g" "tCuradas s = g * (1 - td)"
    and z: "I s ! 0 = i / p" "C s ! 0 = c / p" "D s ! 0 = m / p" "S s ! 0 = (p - i) / p"
    by blast
  have p: "p \<noteq> 0" by (rule init_fields(1) [OF assms])
  have rates: "tDeath s + tCuradas s = gama s"
    using co by (simp add: algebra_simps)
  have one: "S s ! Suc k + I s ! Suc k + C s ! Suc k + D s ! Suc k
               = S s ! k + I s ! k + C s ! k + D s ! k" if "k < steps s0" for k
    using eu that euler_at_sum [OF _ rates] by blast
  have all: "S s ! k + I s ! k + C s ! k + D s ! k = S s ! 0 + I s ! 0 + C s ! 0 + D s ! 0"
    if "k \<le> steps s0" for k
    using that
  proof (induction k)
    case 0
    show ?case by simp
  next
    case (Suc k)
    then have "k < steps s0" by simp
    from one [OF this] Suc show ?case by simp
  qed
  have start: "S s ! 0 + I s ! 0 + C s ! 0 + D s ! 0 = 1 + (c + m) / p"
    using p z by (simp add: field_simps)
  from s one all start show ?thesis by blast
qed

text \<open>Three passes, ten cured people at the start: the sum is \<open>11/10\<close> from first to last.\<close>

theorem step_conserves_sum_witness:
  "\<exists>s0 s. init 100 (3/10) (1/4) (1/25) 1 10 0 (3/100) 0 = Inr s0 \<and> integrate s0 = Inr s \<and>
     S s ! 1 + I s ! 1 + C s ! 1 + D s ! 1 = S s ! 0 + I s ! 0 + C s ! 0 + D s ! 0 \<and>
     S s ! 3 + I s ! 3 + C s ! 3 + D s ! 3 = S s ! 0 + I s ! 0 + C s ! 0 + D s ! 0 \<and>
     S s ! 0 + I s ! 0 + C s ! 0 + D s ! 0 = 11 / 10"
proof -
  obtain s0 where i: "init 100 (3/10) (1/4) (1/25) 1 10 0 (3/100) 0 = Inr s0"
    by (simp add: init_def)
  have n: "steps s0 = 3"
    by (simp add: steps_init [OF i] dt_def py_int_def)
  from step_conserves_sum [OF i] obtain s where s: "integrate s0 = Inr s"
    and one: "\<forall>k<steps s0. S s ! Suc k + I s ! Suc k + C s ! Suc k + D s ! Suc k
                     = S s ! k + I s ! k + C s ! k + D s ! k"
    and all: "\<forall>k\<le>steps s0. S s ! k + I s ! k + C s ! k + D s ! k
                     = S s ! 0 + I s ! 0 + C s ! 0 + D s ! 0"
    and start: "S s ! 0 + I s ! 0 + C s ! 0 + D s ! 0 = 1 + (10 + 0) / 100"
    by blast
  have "0 < steps s0" "3 \<le> steps s0" by (simp_all add: n)
  note a = one [rule_format, OF this(1)] all [rule_format, OF this(2)]
  have b: "S s ! 0 + I s ! 0 + C s ! 0 + D s ! 0 = 11 / 10"
    unfolding start by simp
  have c: "S s ! 1 + I s ! 1 + C s ! 1 + D s ! 1 = S s ! 0 + I s ! 0 + C s ! 0 + D s ! 0"
    using a(1) unfolding One_nat_def .
  show ?thesis
    by (intro exI conjI) (rule i s c a(2) b)+
qed

text \<open>
  C2. The claim asks for \<open>S + I + C + D = 1\<close> at every step, also when \<^verbatim>\<open>curado\<close> or
  \<^verbatim>\<open>mortos\<close> is not zero. The constructor takes only \<^verbatim>\<open>infectado\<close> out of the
  susceptible fraction, so with 10 cured among 100 the initial fractions add up to
  \<open>11/10\<close>, and so does every later step.
\<close>

theorem initial_fractions_with_cured:
  "\<exists>s0 s. init 100 (3/10) (1/4) (1/25) 1 10 0 (3/100) 0 = Inr s0 \<and> integrate s0 = Inr s \<and>
     S s0 = [99 / 100] \<and> I s0 = [1 / 100] \<and> C s0 = [1 / 10] \<and> D s0 = [0] \<and>
     S s ! 0 + I s ! 0 + C s ! 0 + D s ! 0 = 11 / 10 \<and>
     S s ! 3 + I s ! 3 + C s ! 3 + D s ! 3 = 11 / 10"
proof -
  obtain s0 where i: "init 100 (3/10) (1/4) (1/25) 1 10 0 (3/100) 0 = Inr s0"
    by (simp add: init_def)
  note f = init_fields [OF i]
  have n: "steps s0 = 3"
    by (simp add: steps_init [OF i] dt_def py_int_def)
  from integrate_init [OF i] obtain s where s: "integrate s0 = Inr s"
    and eu: "\<forall>k<steps s0. euler_at s k \<and> leitos s ! Suc k = 744"
    and co: "gama s = 1/4" "tDeath s = 1/25 * (1/4)" "tCuradas s = 1/4 * (1 - 1/25)"
    and z: "I s ! 0 = 1 / 100" "C s ! 0 = 10 / 100" "D s ! 0 = 0 / 100"
      "S s ! 0 = (100 - 1) / 100"
    by blast
  have rates: "tDeath s + tCuradas s = gama s"
    using co by simp
  have e: "euler_at s 0" "euler_at s 1" "euler_at s 2"
    using eu n by simp_all
  have z0: "S s ! 0 + I s ! 0 + C s ! 0 + D s ! 0 = 11 / 10"
    using z by simp
  have "S s ! 3 + I s ! 3 + C s ! 3 + D s ! 3 = S s ! 2 + I s ! 2 + C s ! 2 + D s ! 2"
    using euler_at_sum [OF e(3) rates] by (simp add: numeral_3_eq_3 numeral_2_eq_2)
  also have "\<dots> = S s ! 1 + I s ! 1 + C s ! 1 + D s ! 1"
    using euler_at_sum [OF e(2) rates] by (simp add: numeral_2_eq_2)
  also have "\<dots> = S s ! 0 + I s ! 0 + C s ! 0 + D s ! 0"
    using euler_at_sum [OF e(1) rates] by simp
  finally have z3: "S s ! 3 + I s ! 3 + C s ! 3 + D s ! 3 = 11 / 10"
    using z0 by simp
  have "S s0 = [99 / 100]" "I s0 = [1 / 100]" "C s0 = [1 / 10]" "D s0 = [0]"
    using f by simp_all
  with i s z0 z3 show ?thesis by blast
qed




text \<open>
  C5. The claim asks for every entry of \<^verbatim>\<open>leitos\<close> to be the value given to the
  constructor. The loop appends the literal 744 instead: in the script's own run
  (\<^verbatim>\<open>leitos=5623\<close>, 360 days) entry 0 is 5623 and the 36000 entries after it are 744.
\<close>

theorem leitos_series_of_the_script:
  "\<exists>s. simulate 900000 (3/10) (1/4) (1/25) 5100 0 0 360 5623 = Inr s \<and>
     length (leitos s) = 36001 \<and>
     leitos s ! 0 = 5623 \<and> leitos s ! 1 = 744 \<and> leitos s ! 36000 = 744"
proof -
  obtain s0 where i: "init 900000 (3/10) (1/4) (1/25) 5100 0 0 360 5623 = Inr s0"
    by (simp add: init_def)
  have n: "steps s0 = 36000"
    by (simp add: steps_init [OF i] dt_def py_int_def)
  from integrate_init [OF i] obtain sf where r: "run s0 = Inr (to_absolute sf)"
    and len: "series_length sf (Suc (steps s0))"
    and eu: "\<forall>k<steps s0. euler_at sf k \<and> leitos sf ! Suc k = 744"
    and l0: "leitos sf ! 0 = 5623"
    by blast
  have same: "leitos (to_absolute sf) = leitos sf"
    by (simp add: to_absolute_def)
  have a: "simulate 900000 (3/10) (1/4) (1/25) 5100 0 0 360 5623 = Inr (to_absolute sf)"
    by (simp add: simulate_def i r)
  have b: "length (leitos (to_absolute sf)) = 36001"
    using len n by (simp add: same series_length_def)
  have c: "leitos (to_absolute sf) ! 0 = 5623"
    using l0 by (simp add: same)
  have "0 < steps s0" "35999 < steps s0" by (simp_all add: n)
  note e = eu [rule_format, OF this(1)] eu [rule_format, OF this(2)]
  have d: "leitos (to_absolute sf) ! 1 = 744"
    using e(1) by (simp add: same)
  have "Suc 35999 = 36000" by simp
  then have f: "leitos (to_absolute sf) ! 36000 = 744"
    using e(2) by (simp add: same)
  show ?thesis
    by (intro exI conjI) (rule a b c d f)+
qed















text \<open>
  C6, as amended. In exact arithmetic the two derived rates add up to \<open>gama\<close> for every
  construction: \<open>td * g + g * (1 - td) = g\<close>.
\<close>

theorem rates_add_up_to_gama:
  assumes "init p b g td i c m T l = Inr self"
  shows "tDeath self = td * g \<and> tCuradas self = g * (1 - td) \<and>
         tDeath self + tCuradas self = gama self"
  using init_fields [OF assms] by (simp add: algebra_simps)

text \<open>The coefficients of the script.\<close>

theorem rates_add_up_to_gama_witness:
  "\<exists>self. init 900000 (3/10) (1/4) (1/25) 5100 0 0 360 5623 = Inr self \<and>
     tDeath self = 1 / 100 \<and> tCuradas self = 6 / 25 \<and> tDeath self + tCuradas self = 1 / 4"
proof -
  obtain self where i: "init 900000 (3/10) (1/4) (1/25) 5100 0 0 360 5623 = Inr self"
    by (simp add: init_def)
  note f = init_fields [OF i]
  from rates_add_up_to_gama [OF i]
  have "tDeath self = 1 / 25 * (1 / 4)" "tCuradas self = 1 / 4 * (1 - 1 / 25)"
    "tDeath self + tCuradas self = gama self"
    by simp_all
  then have "tDeath self = 1 / 100" "tCuradas self = 6 / 25"
    "tDeath self + tCuradas self = 1 / 4"
    using f(5) by simp_all
  with i show ?thesis by blast
qed

lemma round64_tenth: "round64 (1 / 10) = 7205759403792794 / 2 ^ 56"
  by code_simp

lemma round64_three_tenths: "round64 (3 / 10) = 5404319552844595 / 2 ^ 54"
  by code_simp

lemma tDeath64_value:
  "tDeath64 (7205759403792794 / 2 ^ 56) (5404319552844595 / 2 ^ 54)
     = 8646911284551352 / 2 ^ 58"
  by code_simp

lemma tCuradas64_value:
  "tCuradas64 (7205759403792794 / 2 ^ 56) (5404319552844595 / 2 ^ 54)
     = 5044031582654955 / 2 ^ 56"
  by code_simp

lemma round64_sum_value:
  "round64 (8646911284551352 / 2 ^ 58 + 5044031582654955 / 2 ^ 56)
     = 7205759403792793 / 2 ^ 56"
  by code_simp

text \<open>
  C6 as stated fails on floats, where the equality is asked to be exact. With
  \<^verbatim>\<open>gama = 0.1\<close> and \<^verbatim>\<open>tDeath = 0.3\<close> (the binary64 numbers nearest to \<open>1/10\<close> and \<open>3/10\<close>)
  the rounded rates are \<^verbatim>\<open>0.03\<close> and \<^verbatim>\<open>0.06999999999999999\<close>, and their rounded sum is
  \<^verbatim>\<open>0.09999999999999999\<close>, one unit in the last place below \<^verbatim>\<open>gama\<close>.
\<close>

theorem rates_binary64_below_gama:
  "round64 (1 / 10) = 7205759403792794 / 2 ^ 56 \<and>
   round64 (tDeath64 (round64 (1 / 10)) (round64 (3 / 10))
            + tCuradas64 (round64 (1 / 10)) (round64 (3 / 10)))
     = 7205759403792793 / 2 ^ 56 \<and>
   round64 (tDeath64 (round64 (1 / 10)) (round64 (3 / 10))
            + tCuradas64 (round64 (1 / 10)) (round64 (3 / 10)))
     < round64 (1 / 10)"
  unfolding round64_tenth round64_three_tenths tDeath64_value tCuradas64_value
    round64_sum_value
  by simp

end
